theory Spec2Isabelle
  imports Main "HOL-Library.AList"
begin

section \<open>Promises, errors and observable effects\<close>

text \<open>
  Every operation of the backend is an \<^verbatim>\<open>async\<close> function. An awaited promise
  either fulfils with a value, rejects with an error, or never settles; a \<^verbatim>\<open>throw\<close>
  inside an \<^verbatim>\<open>async\<close> function is a rejection of its promise.
\<close>

datatype jserror =
    SyntaxError
  | TypeError string
  | Error string
  | Reason string

datatype 'a outcome = Fulfilled 'a | Rejected jserror | Pending

section \<open>Events, signers and the NDK instance\<close>

text \<open>
  The raw fields of an event (\<^verbatim>\<open>NostrEvent\<close>) and the event object
  (\<^verbatim>\<open>NDKEvent\<close>), which carries the same fields and an optional NDK instance.
  Users are identified by their hex public key.
\<close>

record nostr_event =
  created_at :: "int option"
  content :: string
  tags :: "string list list"
  kind :: "int option"
  pubkey :: string
  event_id :: string
  sig :: "string option"

record ndk_signer =
  signer_encrypt :: "string \<Rightarrow> string \<Rightarrow> string outcome"
  signer_decrypt :: "string \<Rightarrow> string \<Rightarrow> string outcome"
  signer_sign :: "nostr_event \<Rightarrow> string outcome"

record ndk_instance =
  assertSigner :: "unit outcome"
  ndk_signer :: "ndk_signer option"

record ndk_event = nostr_event +
  ndk :: "ndk_instance option"

section \<open>NIP-04 content encryption (src/events/nip04.ts)\<close>

text \<open>
  Both functions mutate \<^verbatim>\<open>this.content\<close>; the model returns the promise's outcome
  together with the event after the call. \<^verbatim>\<open>this.ndk.signer!\<close> may still be
  undefined after \<^verbatim>\<open>assertSigner\<close>; reading \<^verbatim>\<open>signer.encrypt\<close> then throws a
  TypeError.
\<close>

definition encrypt :: "ndk_event \<Rightarrow> string \<Rightarrow> ndk_signer option \<Rightarrow> unit outcome \<times> ndk_event" where
  "encrypt this recipient signer =
     (case (case signer of
              Some sg \<Rightarrow> Fulfilled sg
            | None \<Rightarrow>
                (case ndk this of
                   None \<Rightarrow> Rejected (Error ''No signer available'')
                 | Some n \<Rightarrow>
                     (case assertSigner n of
                        Rejected e \<Rightarrow> Rejected e
                      | Pending \<Rightarrow> Pending
                      | Fulfilled _ \<Rightarrow>
                          (case ndk_signer n of
                             None \<Rightarrow> Rejected (TypeError ''Cannot read properties of undefined'')
                           | Some sg \<Rightarrow> Fulfilled sg)))) of
        Rejected e \<Rightarrow> (Rejected e, this)
      | Pending \<Rightarrow> (Pending, this)
      | Fulfilled sg \<Rightarrow>
          (case signer_encrypt sg recipient (content this) of
             Rejected e \<Rightarrow> (Rejected e, this)
           | Pending \<Rightarrow> (Pending, this)
           | Fulfilled c \<Rightarrow> (Fulfilled (), this\<lparr>content := c\<rparr>)))"

definition decrypt :: "ndk_event \<Rightarrow> string \<Rightarrow> ndk_signer option \<Rightarrow> unit outcome \<times> ndk_event" where
  "decrypt this sender signer =
     (case (case signer of
              Some sg \<Rightarrow> Fulfilled sg
            | None \<Rightarrow>
                (case ndk this of
                   None \<Rightarrow> Rejected (Error ''No signer available'')
                 | Some n \<Rightarrow>
                     (case assertSigner n of
                        Rejected e \<Rightarrow> Rejected e
                      | Pending \<Rightarrow> Pending
                      | Fulfilled _ \<Rightarrow>
                          (case ndk_signer n of
                             None \<Rightarrow> Rejected (TypeError ''Cannot read properties of undefined'')
                           | Some sg \<Rightarrow> Fulfilled sg)))) of
        Rejected e \<Rightarrow> (Rejected e, this)
      | Pending \<Rightarrow> (Pending, this)
      | Fulfilled sg \<Rightarrow>
          (case signer_decrypt sg sender (content this) of
             Rejected e \<Rightarrow> (Rejected e, this)
           | Pending \<Rightarrow> (Pending, this)
           | Fulfilled c \<Rightarrow> (Fulfilled (), this\<lparr>content := c\<rparr>)))"

section \<open>The NIP-46 backend (nip46 backend class)\<close>

subsection \<open>What a run can be observed to do\<close>

text \<open>
  The effects of handling a request, in the order they happen: the lines written to the
  debug logger, the calls of the permit callback, the calls of the signer's sign
  operation, and the responses handed to \<^verbatim>\<open>rpc.sendResponse\<close>.
\<close>

datatype log_entry =
    IncomingEvent string string "string list"
  | UnsupportedMethod string "string list"
  | SendingResponse string string
  | SignEventRequest string
  | EventToSign nostr_event
  | SignEventRejected string
  | SignEventAllowed string

record response =
  resp_id :: string
  recipient :: string
  result :: string

record effects =
  debug_log :: "log_entry list"
  gate_calls :: "(string \<times> string \<times> ndk_event option) list"
  sign_calls :: "nostr_event list"
  sent :: "response list"

definition debug :: "log_entry \<Rightarrow> effects \<Rightarrow> effects" where
  "debug entry fx = fx\<lparr>debug_log := debug_log fx @ [entry]\<rparr>"

text \<open>
  \<^verbatim>\<open>await p\<close> followed by the rest of the function body: a rejection of \<open>p\<close> leaves the
  body (there is no \<^verbatim>\<open>try\<close> in the class), and a promise that never settles never
  resumes it.
\<close>

definition await :: "'a outcome \<times> effects \<Rightarrow> ('a \<Rightarrow> effects \<Rightarrow> 'b outcome \<times> effects) \<Rightarrow> 'b outcome \<times> effects" where
  "await p body =
     (case p of
        (Fulfilled v, fx) \<Rightarrow> body v fx
      | (Rejected e, fx) \<Rightarrow> (Rejected e, fx)
      | (Pending, fx) \<Rightarrow> (Pending, fx))"

subsection \<open>Strategies and the handlers object\<close>

text \<open>
  A strategy is one of the four built-in classes or an object supplied through
  \<^verbatim>\<open>setStrategy\<close>, whose \<^verbatim>\<open>handle\<close> is arbitrary code: given the remote public key
  and the parameters it may have effects and settles as any promise does.
\<close>

datatype strategy =
    ConnectEventHandlingStrategy
  | SignEventHandlingStrategy
  | GetPublicKeyHandlingStrategy
  | DescribeEventHandlingStrategy
  | CustomStrategy "string \<Rightarrow> string list \<Rightarrow> effects \<Rightarrow> string option outcome \<times> effects"

text \<open>
  \<^verbatim>\<open>handlers\<close> is a plain object created by an object literal, so its prototype is
  \<^verbatim>\<open>Object.prototype\<close>. Reading \<^verbatim>\<open>this.handlers[method]\<close> looks at the object's own
  properties first (kept here in insertion order) and then follows the prototype chain;
  assigning \<^verbatim>\<open>this.handlers[method] = strategy\<close> creates or overwrites an own property,
  except for the key \<^verbatim>\<open>__proto__\<close>, an accessor inherited from \<^verbatim>\<open>Object.prototype\<close> whose
  setter replaces the prototype by the assigned object and whose getter returns the
  prototype. A strategy object is taken to be an instance of a class that declares
  \<^verbatim>\<open>handle\<close> and nothing else, as the interface \<^verbatim>\<open>IEventHandlingStrategy\<close> does.
\<close>

datatype prototype = ObjectPrototype | StrategyPrototype strategy

record handlers_object =
  own :: "(string \<times> strategy) list"
  proto :: prototype

text \<open>
  The value of a property read: undefined, a strategy object, or some other truthy
  value inherited through the prototype chain (a built-in function such as
  \<^verbatim>\<open>Object.prototype.toString\<close>, a class constructor, a prototype object), named by the
  key it was found under. None of the latter has a property \<^verbatim>\<open>handle\<close>.
\<close>

datatype jsvalue = Undefined | StrategyObject strategy | Inherited string

definition object_prototype_names :: "string list" where
  "object_prototype_names =
     [''constructor'', ''__defineGetter__'', ''__defineSetter__'', ''hasOwnProperty'',
      ''__lookupGetter__'', ''__lookupSetter__'', ''isPrototypeOf'', ''propertyIsEnumerable'',
      ''toString'', ''valueOf'', ''__proto__'', ''toLocaleString'']"

definition inherited_property :: "prototype \<Rightarrow> string \<Rightarrow> jsvalue" where
  "inherited_property p method =
     (case p of
        ObjectPrototype \<Rightarrow>
          if method \<in> set object_prototype_names then Inherited method else Undefined
      | StrategyPrototype s \<Rightarrow>
          if method = ''__proto__'' then StrategyObject s
          else if method = ''handle'' \<or> method \<in> set object_prototype_names
          then Inherited method else Undefined)"

definition get_handler :: "handlers_object \<Rightarrow> string \<Rightarrow> jsvalue" where
  "get_handler h method =
     (case map_of (own h) method of
        Some s \<Rightarrow> StrategyObject s
      | None \<Rightarrow> inherited_property (proto h) method)"

definition set_handler :: "handlers_object \<Rightarrow> string \<Rightarrow> strategy \<Rightarrow> handlers_object" where
  "set_handler h method s =
     (if method = ''__proto__'' \<and> map_of (own h) method = None
      then h\<lparr>proto := StrategyPrototype s\<rparr>
      else h\<lparr>own := AList.update method s (own h)\<rparr>)"

text \<open>The field initialiser of \<^verbatim>\<open>handlers\<close>.\<close>

definition initial_handlers :: handlers_object where
  "initial_handlers =
     \<lparr>own = [(''connect'', ConnectEventHandlingStrategy),
             (''sign_event'', SignEventHandlingStrategy),
             (''get_public_key'', GetPublicKeyHandlingStrategy),
             (''describe'', DescribeEventHandlingStrategy)],
      proto = ObjectPrototype\<rparr>"

subsection \<open>The backend object and its collaborators\<close>

text \<open>
  A decoded request, as \<^verbatim>\<open>rpc.parseEvent\<close> is declared to return it: \<^verbatim>\<open>id\<close>, \<^verbatim>\<open>method\<close>
  and \<^verbatim>\<open>params\<close>, the latter an array of strings (possibly empty). An envelope that
  carries no \<^verbatim>\<open>params\<close> at all is not a value of the declared type and has no
  counterpart here.
\<close>

record rpc_request =
  req_id :: string
  rpc_method :: string
  params :: "string list"

text \<open>
  The fields of the backend. \<^verbatim>\<open>rpc.parseEvent\<close> (decryption and decoding of an inbound
  event) and the permit callback are supplied from outside the class and are taken as
  functions giving the outcome of the promise they return; the permit callback is a
  decision function that does not modify the event it is shown. \<^verbatim>\<open>JSON.parse\<close> and
  \<^verbatim>\<open>JSON.stringify\<close> on events are the platform's and are parameters as well.
\<close>

record backend =
  backend_ndk :: ndk_instance
  signer :: ndk_signer
  localUser :: "string option"
  parseEvent :: "ndk_event \<Rightarrow> rpc_request outcome"
  permitCallback :: "string \<Rightarrow> string \<Rightarrow> ndk_event option \<Rightarrow> bool outcome"
  handlers :: handlers_object
  JSON_parse :: "string \<Rightarrow> jserror + nostr_event"
  JSON_stringify :: "nostr_event \<Rightarrow> string"

definition setStrategy :: "backend \<Rightarrow> string \<Rightarrow> strategy \<Rightarrow> backend" where
  "setStrategy this method s = this\<lparr>handlers := set_handler (handlers this) method s\<rparr>"

definition pubkeyAllowed ::
  "backend \<Rightarrow> string \<Rightarrow> string \<Rightarrow> ndk_event option \<Rightarrow> effects \<Rightarrow> bool outcome \<times> effects" where
  "pubkeyAllowed this pk method ps fx =
     (permitCallback this pk method ps, fx\<lparr>gate_calls := gate_calls fx @ [(pk, method, ps)]\<rparr>)"

text \<open>
  Modelled from the spec: the event object model (the \<^verbatim>\<open>NDKEvent\<close> constructor,
  \<^verbatim>\<open>rawEvent\<close> and \<^verbatim>\<open>sign\<close>) lives in a file that is not part of the sources at hand. The
  spec treats it as the capability "given raw fields, produce a signed event" and the
  signer's \<^verbatim>\<open>sign\<close> as deterministic in the key and the fields, failing only on malformed
  fields: the constructor copies the raw fields, \<^verbatim>\<open>rawEvent\<close> gives them back, and
  \<^verbatim>\<open>sign\<close> asks the signer for a signature over the fields and stores it in \<^verbatim>\<open>sig\<close>.
\<close>

definition new_NDKEvent :: "ndk_instance \<Rightarrow> nostr_event \<Rightarrow> ndk_event" where
  "new_NDKEvent n raw =
     \<lparr>created_at = created_at raw, content = content raw, tags = tags raw, kind = kind raw,
      pubkey = pubkey raw, event_id = event_id raw, sig = sig raw, ndk = Some n\<rparr>"

definition rawEvent :: "ndk_event \<Rightarrow> nostr_event" where
  "rawEvent e =
     \<lparr>created_at = created_at e, content = content e, tags = tags e, kind = kind e,
      pubkey = pubkey e, event_id = event_id e, sig = sig e\<rparr>"

definition sign :: "ndk_event \<Rightarrow> ndk_signer \<Rightarrow> effects \<Rightarrow> ndk_event outcome \<times> effects" where
  "sign e sg fx =
     (let fx' = fx\<lparr>sign_calls := sign_calls fx @ [rawEvent e]\<rparr> in
      case signer_sign sg (rawEvent e) of
        Fulfilled s \<Rightarrow> (Fulfilled (e\<lparr>sig := Some s\<rparr>), fx')
      | Rejected err \<Rightarrow> (Rejected err, fx')
      | Pending \<Rightarrow> (Pending, fx'))"

text \<open>
  \<^verbatim>\<open>signEvent\<close>. \<^verbatim>\<open>const [eventString] = params\<close> gives undefined for an empty list, and
  \<^verbatim>\<open>JSON.parse(undefined)\<close> throws a SyntaxError.
\<close>

definition signEvent ::
  "backend \<Rightarrow> string \<Rightarrow> string list \<Rightarrow> effects \<Rightarrow> ndk_event option outcome \<times> effects" where
  "signEvent this remotePubkey ps fx =
     (let fx1 = debug (SignEventRequest remotePubkey) fx in
      case (case ps of [] \<Rightarrow> Inl SyntaxError | eventString # _ \<Rightarrow> JSON_parse this eventString) of
        Inl err \<Rightarrow> (Rejected err, fx1)
      | Inr raw \<Rightarrow>
          (let event = new_NDKEvent (backend_ndk this) raw;
               fx2 = debug (EventToSign (rawEvent event)) fx1
           in await (pubkeyAllowed this remotePubkey ''sign_event'' (Some event) fx2)
                (\<lambda>allowed fx3.
                   if \<not> allowed
                   then (Fulfilled None, debug (SignEventRejected remotePubkey) fx3)
                   else await (sign event (signer this) (debug (SignEventAllowed remotePubkey) fx3))
                          (\<lambda>signed fx4. (Fulfilled (Some signed), fx4)))))"

text \<open>
  Modelled from the spec: rendering of the list of method names that the describe
  handler returns ("an enumeration of all currently registered method names").
\<close>

fun join :: "string \<Rightarrow> string list \<Rightarrow> string" where
  "join sep [] = []"
| "join sep [x] = x"
| "join sep (x # y # ys) = x @ sep @ join sep (y # ys)"

definition enumerate_names :: "string list \<Rightarrow> string" where
  "enumerate_names names = ''['' @ join '','' names @ '']''"

text \<open>
  Modelled from the spec: the \<^verbatim>\<open>handle\<close> methods of the four built-in strategy classes
  (connect, sign-event, get-public-key, describe), whose files are not part of the
  sources at hand. Per the spec, connect always produces the fixed acknowledgment
  \<^verbatim>\<open>ack\<close> without consulting the gate; get-public-key returns the local identity's
  public key; describe returns the enumeration of the registered method names. The steps
  the spec lists for sign-event (parse, ask the gate, sign) are those of \<^verbatim>\<open>signEvent\<close> of
  the backend, which the strategy calls: it returns the signed event serialized, or
  nothing when \<^verbatim>\<open>signEvent\<close> returns nothing, and has no error handling of its own. A
  custom strategy runs its own code, a function of the remote public key, the parameters
  and the effects so far.
\<close>

definition handle ::
  "strategy \<Rightarrow> backend \<Rightarrow> string \<Rightarrow> string list \<Rightarrow> effects \<Rightarrow> string option outcome \<times> effects" where
  "handle s this remotePubkey ps fx =
     (case s of
        ConnectEventHandlingStrategy \<Rightarrow> (Fulfilled (Some ''ack''), fx)
      | SignEventHandlingStrategy \<Rightarrow>
          await (signEvent this remotePubkey ps fx)
            (\<lambda>event fx'.
               case event of
                 None \<Rightarrow> (Fulfilled None, fx')
               | Some e \<Rightarrow> (Fulfilled (Some (JSON_stringify this (rawEvent e))), fx'))
      | GetPublicKeyHandlingStrategy \<Rightarrow> (Fulfilled (localUser this), fx)
      | DescribeEventHandlingStrategy \<Rightarrow>
          (Fulfilled (Some (enumerate_names (map fst (own (handlers this))))), fx)
      | CustomStrategy f \<Rightarrow> f remotePubkey ps fx)"

text \<open>
  Modelled from the spec: \<^verbatim>\<open>rpc.sendResponse\<close> (the rpc class is not part of the sources
  at hand) builds a response envelope with the given id and result and publishes it to
  the given recipient. The call is not awaited.
\<close>

definition sendResponse :: "string \<Rightarrow> string \<Rightarrow> string \<Rightarrow> effects \<Rightarrow> effects" where
  "sendResponse i remotePubkey r fx =
     fx\<lparr>sent := sent fx @ [\<lparr>resp_id = i, recipient = remotePubkey, result = r\<rparr>]\<rparr>"

text \<open>
  \<^verbatim>\<open>handleIncomingEvent\<close>. Calling \<^verbatim>\<open>strategy.handle\<close> on a truthy value that is not a
  strategy throws a TypeError; \<^verbatim>\<open>if (response)\<close> is false for undefined and for the
  empty string.
\<close>

definition handleIncomingEvent :: "backend \<Rightarrow> ndk_event \<Rightarrow> effects \<Rightarrow> unit outcome \<times> effects" where
  "handleIncomingEvent this event fx =
     await (parseEvent this event, fx)
       (\<lambda>req fx0.
          let remotePubkey = pubkey event;
              fx1 = debug (IncomingEvent (req_id req) (rpc_method req) (params req)) fx0;
              strategy = get_handler (handlers this) (rpc_method req)
          in await
               (case strategy of
                  StrategyObject s \<Rightarrow> handle s this remotePubkey (params req) fx1
                | Inherited name \<Rightarrow> (Rejected (TypeError ''strategy.handle is not a function''), fx1)
                | Undefined \<Rightarrow>
                    (Fulfilled None, debug (UnsupportedMethod (rpc_method req) (params req)) fx1))
               (\<lambda>response fx2.
                  case response of
                    None \<Rightarrow> (Fulfilled (), fx2)
                  | Some r \<Rightarrow>
                      if r = [] then (Fulfilled (), fx2)
                      else (Fulfilled (),
                            sendResponse (req_id req) remotePubkey r
                              (debug (SendingResponse remotePubkey r) fx2))))"

section \<open>Examples used to instantiate the theorems\<close>

definition demo_signer :: ndk_signer where
  "demo_signer =
     \<lparr>signer_encrypt = (\<lambda>recipient plain. Fulfilled (''enc:'' @ plain)),
      signer_decrypt = (\<lambda>sender cipher. Fulfilled (drop 4 cipher)),
      signer_sign = (\<lambda>raw. Fulfilled (''sig:'' @ content raw))\<rparr>"

definition demo_note :: ndk_event where
  "demo_note =
     \<lparr>created_at = Some 1700000000, content = ''hi'', tags = [], kind = Some 1,
      pubkey = ''remote'', event_id = '''', sig = None, ndk = None\<rparr>"

definition no_effects :: effects where
  "no_effects = \<lparr>debug_log = [], gate_calls = [], sign_calls = [], sent = []\<rparr>"

definition demo_ndk :: ndk_instance where
  "demo_ndk = \<lparr>assertSigner = Fulfilled (), ndk_signer = Some demo_signer\<rparr>"

definition demo_raw :: nostr_event where
  "demo_raw =
     \<lparr>created_at = Some 1700000000, content = ''hi'', tags = [], kind = Some 1,
      pubkey = ''local'', event_id = [], sig = None\<rparr>"

text \<open>
  A stand-in for the transport codec: the inbound event carries the request in the
  clear (the id in \<open>event_id\<close>, the method in \<open>content\<close>, the parameters in the first
  tag), and the content \<^verbatim>\<open>garbage\<close> does not decode. The stand-in for \<^verbatim>\<open>JSON.parse\<close>
  knows one serialized event and rejects every other string.
\<close>

definition demo_parseEvent :: "ndk_event \<Rightarrow> rpc_request outcome" where
  "demo_parseEvent e =
     (if content e = ''garbage'' then Rejected SyntaxError
      else Fulfilled \<lparr>req_id = event_id e, rpc_method = content e,
                      params = (case tags e of [] \<Rightarrow> [] | ps # _ \<Rightarrow> ps)\<rparr>)"

definition demo_request :: "string \<Rightarrow> string \<Rightarrow> string list \<Rightarrow> ndk_event" where
  "demo_request i m ps =
     \<lparr>created_at = None, content = m, tags = [ps], kind = Some 24133,
      pubkey = ''remote'', event_id = i, sig = None, ndk = None\<rparr>"

definition demo_backend :: "bool outcome \<Rightarrow> backend" where
  "demo_backend decision =
     \<lparr>backend_ndk = demo_ndk, signer = demo_signer, localUser = Some ''local'',
      parseEvent = demo_parseEvent,
      permitCallback = (\<lambda>pk m ps. decision),
      handlers = initial_handlers,
      JSON_parse = (\<lambda>s. if s = ''{kind:1,content:hi}'' then Inr demo_raw else Inl SyntaxError),
      JSON_stringify = (\<lambda>raw. ''{content:'' @ content raw @ '',sig:'' @
                          (case sig raw of None \<Rightarrow> [] | Some s \<Rightarrow> s) @ ''}'')\<rparr>"

section \<open>Theorems: NIP-04\<close>

lemma encrypt_frame: "snd (encrypt this r sg) = this\<lparr>content := content (snd (encrypt this r sg))\<rparr>"
  by (simp add: encrypt_def split: option.splits outcome.splits)

lemma decrypt_frame: "snd (decrypt this r sg) = this\<lparr>content := content (snd (decrypt this r sg))\<rparr>"
  by (simp add: decrypt_def split: option.splits outcome.splits)

lemma encrypt_available:
  "sg = Some s \<or> (sg = None \<and> ndk this = Some n \<and> assertSigner n = Fulfilled () \<and> ndk_signer n = Some s)
   \<Longrightarrow> signer_encrypt s r (content this) = Fulfilled c
   \<Longrightarrow> encrypt this r sg = (Fulfilled (), this\<lparr>content := c\<rparr>)"
  by (auto simp: encrypt_def)

lemma decrypt_available:
  "sg = Some s \<or> (sg = None \<and> ndk this = Some n \<and> assertSigner n = Fulfilled () \<and> ndk_signer n = Some s)
   \<Longrightarrow> signer_decrypt s r (content this) = Fulfilled c
   \<Longrightarrow> decrypt this r sg = (Fulfilled (), this\<lparr>content := c\<rparr>)"
  by (auto simp: decrypt_def)

text \<open>
  C10. Called without a signer on an event that has no NDK instance, \<^verbatim>\<open>encrypt\<close> and
  \<^verbatim>\<open>decrypt\<close> reject with the error 'No signer available' and leave the event (so its
  content) as it was. When a signer \<open>s\<close> is available (passed in, or taken from the NDK
  instance after \<^verbatim>\<open>assertSigner\<close> fulfilled) and its operation fulfils with \<open>c\<close>, the
  event after the call is the event before it with the content replaced by \<open>c\<close>. In
  every case, whatever the outcome, all fields other than the content stay as they were.
\<close>

theorem nip04_no_signer_and_frame:
  "(ndk this = None \<longrightarrow>
      encrypt this r None = (Rejected (Error ''No signer available''), this) \<and>
      decrypt this r None = (Rejected (Error ''No signer available''), this)) \<and>
   ((sg = Some s \<or> (sg = None \<and> ndk this = Some n \<and> assertSigner n = Fulfilled () \<and> ndk_signer n = Some s)) \<and>
    signer_encrypt s r (content this) = Fulfilled c \<longrightarrow>
      encrypt this r sg = (Fulfilled (), this\<lparr>content := c\<rparr>)) \<and>
   ((sg = Some s \<or> (sg = None \<and> ndk this = Some n \<and> assertSigner n = Fulfilled () \<and> ndk_signer n = Some s)) \<and>
    signer_decrypt s r (content this) = Fulfilled d \<longrightarrow>
      decrypt this r sg = (Fulfilled (), this\<lparr>content := d\<rparr>)) \<and>
   snd (encrypt this r sg) = this\<lparr>content := content (snd (encrypt this r sg))\<rparr> \<and>
   snd (decrypt this r sg) = this\<lparr>content := content (snd (decrypt this r sg))\<rparr>"
proof -
  have a: "ndk this = None \<longrightarrow>
      encrypt this r None = (Rejected (Error ''No signer available''), this) \<and>
      decrypt this r None = (Rejected (Error ''No signer available''), this)"
    by (simp add: encrypt_def decrypt_def)
  show ?thesis
    using a encrypt_available [of sg s this n r c] decrypt_available [of sg s this n r d]
      encrypt_frame [of this r sg] decrypt_frame [of this r sg]
    by blast
qed

theorem nip04_no_signer_and_frame_witness:
  "encrypt demo_note ''bob'' None = (Rejected (Error ''No signer available''), demo_note) \<and>
   decrypt demo_note ''bob'' None = (Rejected (Error ''No signer available''), demo_note) \<and>
   encrypt demo_note ''bob'' (Some demo_signer) = (Fulfilled (), demo_note\<lparr>content := ''enc:hi''\<rparr>) \<and>
   decrypt demo_note ''bob'' (Some demo_signer) = (Fulfilled (), demo_note\<lparr>content := []\<rparr>)"
  using nip04_no_signer_and_frame [of demo_note "''bob''" "Some demo_signer" demo_signer undefined "''enc:hi''" "[]"]
  by (simp add: demo_note_def demo_signer_def)

section \<open>Theorems: the backend\<close>

lemma await_Fulfilled [simp]: "await (Fulfilled v, fx) body = body v fx"
  by (simp add: await_def)

lemma await_Rejected [simp]: "await (Rejected e, fx) body = (Rejected e, fx)"
  by (simp add: await_def)

lemma await_Pending [simp]: "await (Pending, fx) body = (Pending, fx)"
  by (simp add: await_def)

lemma rawEvent_new_NDKEvent [simp]: "rawEvent (new_NDKEvent n raw) = raw"
  by (simp add: rawEvent_def new_NDKEvent_def)

lemma signEvent_gate:
  assumes "ps = eventString # rest" and "JSON_parse this eventString = Inr raw"
    and "permitCallback this rp ''sign_event'' (Some (new_NDKEvent (backend_ndk this) raw)) = g"
  shows "signEvent this rp ps fx =
     (let fx3 = fx\<lparr>debug_log := debug_log fx @ [SignEventRequest rp, EventToSign raw],
                    gate_calls := gate_calls fx @ [(rp, ''sign_event'', Some (new_NDKEvent (backend_ndk this) raw))]\<rparr>
      in case g of
           Rejected e \<Rightarrow> (Rejected e, fx3)
         | Pending \<Rightarrow> (Pending, fx3)
         | Fulfilled False \<Rightarrow> (Fulfilled None, debug (SignEventRejected rp) fx3)
         | Fulfilled True \<Rightarrow>
             await (sign (new_NDKEvent (backend_ndk this) raw) (signer this) (debug (SignEventAllowed rp) fx3))
               (\<lambda>signed fx4. (Fulfilled (Some signed), fx4)))"
  using assms
  by (cases g) (auto simp: signEvent_def pubkeyAllowed_def debug_def Let_def)

text \<open>
  C1. A sign-event request (one whose method resolves to the sign-event strategy and whose
  parameter parses) for which the permit callback fulfils with false: handling it
  completes, the list of published responses and the list of calls of the signer's sign
  operation are what they were before, and the only effects are four log lines and the
  one call of the gate.
\<close>

theorem sign_event_denied_no_response_no_sign:
  assumes "parseEvent this event = Fulfilled req"
    and "get_handler (handlers this) (rpc_method req) = StrategyObject SignEventHandlingStrategy"
    and "params req = eventString # rest"
    and "JSON_parse this eventString = Inr raw"
    and "permitCallback this (pubkey event) ''sign_event''
           (Some (new_NDKEvent (backend_ndk this) raw)) = Fulfilled False"
  shows "handleIncomingEvent this event fx =
           (Fulfilled (),
            fx\<lparr>debug_log := debug_log fx @
                   [IncomingEvent (req_id req) (rpc_method req) (params req),
                    SignEventRequest (pubkey event), EventToSign raw,
                    SignEventRejected (pubkey event)],
                gate_calls := gate_calls fx @
                   [(pubkey event, ''sign_event'', Some (new_NDKEvent (backend_ndk this) raw))]\<rparr>)
         \<and> sent (snd (handleIncomingEvent this event fx)) = sent fx
         \<and> sign_calls (snd (handleIncomingEvent this event fx)) = sign_calls fx
         \<and> fst (signEvent this (pubkey event) (params req) fx) = Fulfilled None
         \<and> sign_calls (snd (signEvent this (pubkey event) (params req) fx)) = sign_calls fx"
proof -
  have s: "\<And>fx'. signEvent this (pubkey event) (params req) fx' =
      (Fulfilled None,
       fx'\<lparr>debug_log := debug_log fx' @ [SignEventRequest (pubkey event), EventToSign raw,
                                         SignEventRejected (pubkey event)],
           gate_calls := gate_calls fx' @
              [(pubkey event, ''sign_event'', Some (new_NDKEvent (backend_ndk this) raw))]\<rparr>)"
    using signEvent_gate [OF assms(3) assms(4) assms(5)] by (simp add: debug_def)
  have h: "handleIncomingEvent this event fx =
           (Fulfilled (),
            fx\<lparr>debug_log := debug_log fx @
                   [IncomingEvent (req_id req) (rpc_method req) (params req),
                    SignEventRequest (pubkey event), EventToSign raw,
                    SignEventRejected (pubkey event)],
                gate_calls := gate_calls fx @
                   [(pubkey event, ''sign_event'', Some (new_NDKEvent (backend_ndk this) raw))]\<rparr>)"
    using assms(1) assms(2) by (simp add: handleIncomingEvent_def handle_def s debug_def Let_def)
  show ?thesis
    by (simp add: h s)
qed

theorem sign_event_denied_witness:
  "handleIncomingEvent (demo_backend (Fulfilled False))
      (demo_request ''2'' ''sign_event'' [''{kind:1,content:hi}'']) no_effects =
     (Fulfilled (),
      \<lparr>debug_log = [IncomingEvent ''2'' ''sign_event'' [''{kind:1,content:hi}''],
                    SignEventRequest ''remote'', EventToSign demo_raw, SignEventRejected ''remote''],
       gate_calls = [(''remote'', ''sign_event'', Some (new_NDKEvent demo_ndk demo_raw))],
       sign_calls = [], sent = []\<rparr>)"
  using sign_event_denied_no_response_no_sign
    [of "demo_backend (Fulfilled False)" "demo_request ''2'' ''sign_event'' [''{kind:1,content:hi}'']"
        "\<lparr>req_id = ''2'', rpc_method = ''sign_event'', params = [''{kind:1,content:hi}'']\<rparr>"
        "''{kind:1,content:hi}''" "[]" demo_raw no_effects]
  by (simp add: demo_backend_def demo_request_def demo_parseEvent_def initial_handlers_def
      get_handler_def no_effects_def)





lemma sign_fulfilled:
  "signer_sign sg (rawEvent e) = Fulfilled s \<Longrightarrow>
   sign e sg fx = (Fulfilled (e\<lparr>sig := Some s\<rparr>), fx\<lparr>sign_calls := sign_calls fx @ [rawEvent e]\<rparr>)"
  by (simp add: sign_def Let_def)

lemma rawEvent_sig_update: "rawEvent (new_NDKEvent n raw\<lparr>sig := v\<rparr>) = raw\<lparr>sig := v\<rparr>"
  by (simp add: rawEvent_def new_NDKEvent_def)

text \<open>
  C3. A sign-event request whose single parameter parses to the event fields \<open>raw\<close>, which
  the gate allows and the signer accepts with signature \<open>s\<close>: \<^verbatim>\<open>signEvent\<close> calls the
  signer's sign operation once, on exactly the fields \<open>raw\<close>, and returns the event made
  of those fields with \<open>s\<close> as its signature; the handler's result is the serialization
  of that signed event, whose fields other than the signature are those of the input.
\<close>

theorem sign_event_allowed_returns_signed_event:
  assumes "ps = eventString # rest"
    and "JSON_parse this eventString = Inr raw"
    and "permitCallback this rp ''sign_event'' (Some (new_NDKEvent (backend_ndk this) raw)) = Fulfilled True"
    and "signer_sign (signer this) raw = Fulfilled s"
  shows "fst (signEvent this rp ps fx) = Fulfilled (Some (new_NDKEvent (backend_ndk this) raw\<lparr>sig := Some s\<rparr>))
         \<and> sign_calls (snd (signEvent this rp ps fx)) = sign_calls fx @ [raw]
         \<and> fst (handle SignEventHandlingStrategy this rp ps fx) =
             Fulfilled (Some (JSON_stringify this (raw\<lparr>sig := Some s\<rparr>)))
         \<and> sign_calls (snd (handle SignEventHandlingStrategy this rp ps fx)) = sign_calls fx @ [raw]
         \<and> created_at (raw\<lparr>sig := Some s\<rparr>) = created_at raw
         \<and> content (raw\<lparr>sig := Some s\<rparr>) = content raw
         \<and> tags (raw\<lparr>sig := Some s\<rparr>) = tags raw
         \<and> kind (raw\<lparr>sig := Some s\<rparr>) = kind raw
         \<and> pubkey (raw\<lparr>sig := Some s\<rparr>) = pubkey raw
         \<and> event_id (raw\<lparr>sig := Some s\<rparr>) = event_id raw"
proof -
  let ?ev = "new_NDKEvent (backend_ndk this) raw"
  have sg: "\<And>fx'. sign ?ev (signer this) fx' =
      (Fulfilled (?ev\<lparr>sig := Some s\<rparr>), fx'\<lparr>sign_calls := sign_calls fx' @ [raw]\<rparr>)"
    using sign_fulfilled [of "signer this" ?ev s] assms(4) by simp
  have s: "signEvent this rp ps fx =
      (Fulfilled (Some (?ev\<lparr>sig := Some s\<rparr>)),
       fx\<lparr>debug_log := debug_log fx @ [SignEventRequest rp, EventToSign raw, SignEventAllowed rp],
          gate_calls := gate_calls fx @ [(rp, ''sign_event'', Some ?ev)],
          sign_calls := sign_calls fx @ [raw]\<rparr>)"
    using signEvent_gate [OF assms(1) assms(2) assms(3)] by (simp add: sg debug_def)
  show ?thesis
    by (simp add: s handle_def rawEvent_sig_update)
qed

theorem sign_event_allowed_witness:
  "fst (handle SignEventHandlingStrategy (demo_backend (Fulfilled True)) ''remote''
          [''{kind:1,content:hi}''] no_effects) = Fulfilled (Some ''{content:hi,sig:sig:hi}'')
   \<and> sign_calls (snd (handle SignEventHandlingStrategy (demo_backend (Fulfilled True)) ''remote''
          [''{kind:1,content:hi}''] no_effects)) = [demo_raw]"
  using sign_event_allowed_returns_signed_event
    [of "[''{kind:1,content:hi}'']" "''{kind:1,content:hi}''" "[]" "demo_backend (Fulfilled True)"
        demo_raw "''remote''" "''sig:hi''" no_effects]
  by (simp add: demo_backend_def demo_signer_def demo_raw_def no_effects_def)


text \<open>
  C4, as the code has it. When decoding the inbound event fails (the promise of
  \<^verbatim>\<open>rpc.parseEvent\<close> rejects), no handler is looked up or run, no response is sent and
  nothing is written to the log; the rejection is not caught and becomes the outcome of
  \<^verbatim>\<open>handleIncomingEvent\<close>.
\<close>

theorem decode_failure_propagates:
  assumes "parseEvent this event = Rejected e"
  shows "handleIncomingEvent this event fx = (Rejected e, fx)"
  using assms by (simp add: handleIncomingEvent_def)

theorem decode_failure_propagates_witness:
  "handleIncomingEvent (demo_backend (Fulfilled True)) (demo_request ''1'' ''garbage'' []) no_effects =
     (Rejected SyntaxError, no_effects)"
  using decode_failure_propagates
    [of "demo_backend (Fulfilled True)" "demo_request ''1'' ''garbage'' []" SyntaxError no_effects]
  by (simp add: demo_backend_def demo_request_def demo_parseEvent_def)

text \<open>
  The statement of C4 fails on the code: for an inbound event that does not decode, the
  dispatcher does not complete normally and the log is left empty.
\<close>

theorem decode_failure_counterexample:
  "fst (handleIncomingEvent (demo_backend (Fulfilled True)) (demo_request ''1'' ''garbage'' [])
          no_effects) \<noteq> Fulfilled ()
   \<and> debug_log (snd (handleIncomingEvent (demo_backend (Fulfilled True))
          (demo_request ''1'' ''garbage'' []) no_effects)) = []"
  by (simp add: handleIncomingEvent_def demo_backend_def demo_request_def demo_parseEvent_def
      no_effects_def)





lemma inherited_property_Undefined:
  "inherited_property p m = Undefined \<longleftrightarrow>
     (case p of
        ObjectPrototype \<Rightarrow> m \<notin> set object_prototype_names
      | StrategyPrototype s \<Rightarrow> m \<noteq> ''handle'' \<and> m \<notin> set object_prototype_names)"
  by (cases p) (simp_all add: inherited_property_def object_prototype_names_def)

lemma get_handler_Undefined:
  "get_handler h m = Undefined \<longleftrightarrow>
     map_of (own h) m = None \<and> inherited_property (proto h) m = Undefined"
  by (simp add: get_handler_def split: option.splits)

lemma unsupported_method_dropped:
  assumes "parseEvent this event = Fulfilled req"
    and "get_handler (handlers this) (rpc_method req) = Undefined"
  shows "handleIncomingEvent this event fx =
           (Fulfilled (),
            fx\<lparr>debug_log := debug_log fx @
                  [IncomingEvent (req_id req) (rpc_method req) (params req),
                   UnsupportedMethod (rpc_method req) (params req)]\<rparr>)"
  using assms by (simp add: handleIncomingEvent_def debug_def Let_def)

lemma inherited_method_throws:
  assumes "parseEvent this event = Fulfilled req"
    and "get_handler (handlers this) (rpc_method req) = Inherited n"
  shows "handleIncomingEvent this event fx =
           (Rejected (TypeError ''strategy.handle is not a function''),
            fx\<lparr>debug_log := debug_log fx @
                  [IncomingEvent (req_id req) (rpc_method req) (params req)]\<rparr>)"
  using assms by (simp add: handleIncomingEvent_def debug_def Let_def)

text \<open>
  C6, at the request \<^verbatim>\<open>{"id":"3","method":"toString","params":[]}\<close> sent to a backend
  with the initial handlers. No handler was registered under \<^verbatim>\<open>toString\<close>, yet
  \<^verbatim>\<open>this.handlers["toString"]\<close> is the function inherited from \<^verbatim>\<open>Object.prototype\<close>, the
  branch for a known strategy is taken, and calling its missing \<^verbatim>\<open>handle\<close> throws: a
  TypeError escapes the dispatcher. No response is published and the line for an
  unsupported method is not logged.
\<close>

theorem unregistered_inherited_method_throws:
  "map_of (own (handlers (demo_backend (Fulfilled True)))) ''toString'' = None
   \<and> handleIncomingEvent (demo_backend (Fulfilled True)) (demo_request ''3'' ''toString'' []) no_effects =
       (Rejected (TypeError ''strategy.handle is not a function''),
        \<lparr>debug_log = [IncomingEvent ''3'' ''toString'' []],
         gate_calls = [], sign_calls = [], sent = []\<rparr>)"
  by (simp add: handleIncomingEvent_def debug_def Let_def demo_backend_def demo_request_def
      demo_parseEvent_def initial_handlers_def get_handler_def inherited_property_def object_prototype_names_def
      no_effects_def)

lemma unknown_op_dropped:
  "handleIncomingEvent (demo_backend (Fulfilled True)) (demo_request ''3'' ''unknown-op'' []) no_effects =
     (Fulfilled (),
      \<lparr>debug_log = [IncomingEvent ''3'' ''unknown-op'' [], UnsupportedMethod ''unknown-op'' []],
       gate_calls = [], sign_calls = [], sent = []\<rparr>)"
  by (simp add: handleIncomingEvent_def debug_def Let_def demo_backend_def demo_request_def
      demo_parseEvent_def initial_handlers_def get_handler_def inherited_property_def object_prototype_names_def
      no_effects_def)

lemma get_set_handler_same: "get_handler (set_handler h m s) m = StrategyObject s"
proof (cases "m = ''__proto__'' \<and> map_of (own h) m = None")
  case True
  then have "set_handler h m s = h\<lparr>proto := StrategyPrototype s\<rparr>"
    by (auto simp: set_handler_def)
  with True show ?thesis
    by (auto simp: get_handler_def inherited_property_def)
next
  case False
  then have "set_handler h m s = h\<lparr>own := AList.update m s (own h)\<rparr>"
    by (auto simp: set_handler_def)
  then show ?thesis
    by (simp add: get_handler_def update_conv)
qed

lemma setStrategy_last_wins:
  "get_handler (handlers (setStrategy (setStrategy this m s1) m s2)) m = StrategyObject s2"
  by (simp add: setStrategy_def get_set_handler_same)

lemma get_set_handler_other:
  assumes "m' \<noteq> m" and "m \<noteq> ''__proto__''"
  shows "get_handler (set_handler h m s) m' = get_handler h m'"
proof -
  have "set_handler h m s = h\<lparr>own := AList.update m s (own h)\<rparr>"
    using assms(2) by (simp add: set_handler_def)
  moreover have "map_of (AList.update m s (own h)) m' = map_of (own h) m'"
    using assms(1) by (simp add: update_conv)
  ultimately show ?thesis
    by (simp add: get_handler_def split: option.splits)
qed

text \<open>
  C8, at the method name \<^verbatim>\<open>toString\<close> on a backend with the initial handlers. The name
  was never registered (it is not among the own properties of \<^verbatim>\<open>handlers\<close>, also after
  registering a strategy under another name), yet resolving it does not yield undefined
  but the member inherited from \<^verbatim>\<open>Object.prototype\<close>.
\<close>

theorem resolve_unregistered_inherited_name:
  "map_of (own initial_handlers) ''toString'' = None
   \<and> get_handler initial_handlers ''toString'' = Inherited ''toString''
   \<and> get_handler initial_handlers ''toString'' \<noteq> Undefined
   \<and> get_handler (handlers (setStrategy (demo_backend (Fulfilled True)) ''ping''
         ConnectEventHandlingStrategy)) ''toString'' = Inherited ''toString''"
  by (simp add: initial_handlers_def get_handler_def inherited_property_def set_handler_def
      setStrategy_def demo_backend_def object_prototype_names_def)


lemma enumerate_names_nonempty: "enumerate_names names \<noteq> []"
  by (simp add: enumerate_names_def)

lemma present_result_is_sent:
  assumes "parseEvent this event = Fulfilled req"
    and "get_handler (handlers this) (rpc_method req) = StrategyObject s"
    and "handle s this (pubkey event) (params req)
           (debug (IncomingEvent (req_id req) (rpc_method req) (params req)) fx) = (Fulfilled (Some r), fx2)"
    and "r \<noteq> []"
  shows "handleIncomingEvent this event fx =
           (Fulfilled (),
            fx2\<lparr>debug_log := debug_log fx2 @ [SendingResponse (pubkey event) r],
                sent := sent fx2 @ [\<lparr>resp_id = req_id req, recipient = pubkey event, result = r\<rparr>]\<rparr>)"
  using assms by (simp add: handleIncomingEvent_def debug_def sendResponse_def Let_def)

text \<open>
  C7. A request that decodes and whose method resolves to one of the built-in strategies
  that do not consult the gate (connect, get-public-key, describe), on a backend whose
  local user is set: handling it completes and publishes exactly one response, addressed
  to the sender, whose id is the request's id and whose result is the non-empty string
  the strategy produced; the permit callback is not called.
\<close>

theorem non_gated_method_responds_with_request_id:
  assumes "parseEvent this event = Fulfilled req"
    and "get_handler (handlers this) (rpc_method req) = StrategyObject s"
    and "s \<in> {ConnectEventHandlingStrategy, GetPublicKeyHandlingStrategy, DescribeEventHandlingStrategy}"
    and "localUser this = Some pk" and "pk \<noteq> []"
    and "r = (case s of
                ConnectEventHandlingStrategy \<Rightarrow> ''ack''
              | GetPublicKeyHandlingStrategy \<Rightarrow> pk
              | _ \<Rightarrow> enumerate_names (map fst (own (handlers this))))"
  shows "r \<noteq> []
         \<and> handleIncomingEvent this event fx =
             (Fulfilled (),
              fx\<lparr>debug_log := debug_log fx @
                     [IncomingEvent (req_id req) (rpc_method req) (params req),
                      SendingResponse (pubkey event) r],
                  sent := sent fx @
                     [\<lparr>resp_id = req_id req, recipient = pubkey event, result = r\<rparr>]\<rparr>)
         \<and> gate_calls (snd (handleIncomingEvent this event fx)) = gate_calls fx"
proof -
  have r: "r \<noteq> []"
    using assms(3) assms(5) assms(6) by (auto simp: enumerate_names_nonempty)
  have h: "handle s this (pubkey event) (params req)
             (debug (IncomingEvent (req_id req) (rpc_method req) (params req)) fx) =
           (Fulfilled (Some r), debug (IncomingEvent (req_id req) (rpc_method req) (params req)) fx)"
    using assms(3) assms(4) assms(6) by (auto simp: handle_def)
  have "handleIncomingEvent this event fx =
             (Fulfilled (),
              fx\<lparr>debug_log := debug_log fx @
                     [IncomingEvent (req_id req) (rpc_method req) (params req),
                      SendingResponse (pubkey event) r],
                  sent := sent fx @
                     [\<lparr>resp_id = req_id req, recipient = pubkey event, result = r\<rparr>]\<rparr>)"
    using present_result_is_sent [OF assms(1) assms(2) h r] by (simp add: debug_def)
  with r show ?thesis
    by simp
qed

theorem non_gated_method_witness:
  "handleIncomingEvent (demo_backend (Fulfilled False)) (demo_request ''1'' ''get_public_key'' [])
      no_effects =
     (Fulfilled (),
      \<lparr>debug_log = [IncomingEvent ''1'' ''get_public_key'' [], SendingResponse ''remote'' ''local''],
       gate_calls = [], sign_calls = [],
       sent = [\<lparr>resp_id = ''1'', recipient = ''remote'', result = ''local''\<rparr>]\<rparr>)"
  using non_gated_method_responds_with_request_id
    [of "demo_backend (Fulfilled False)" "demo_request ''1'' ''get_public_key'' []"
        "\<lparr>req_id = ''1'', rpc_method = ''get_public_key'', params = []\<rparr>"
        GetPublicKeyHandlingStrategy "''local''" "''local''" no_effects]
  by (simp add: demo_backend_def demo_request_def demo_parseEvent_def initial_handlers_def
      get_handler_def no_effects_def)

text \<open>
  C9. When the resolved handler fulfils with the empty string, the dispatcher completes
  without calling \<^verbatim>\<open>sendResponse\<close> and without logging a response: the effects after the
  dispatcher are the effects after the handler, so the published responses are those the
  handler left. The same holds, with the same final effects, when the handler fulfils
  with undefined, so that the two results cannot be told apart from outside.
\<close>

theorem empty_string_result_sends_nothing:
  assumes "parseEvent this event = Fulfilled req"
    and "get_handler (handlers this) (rpc_method req) = StrategyObject s"
    and "handle s this (pubkey event) (params req)
           (debug (IncomingEvent (req_id req) (rpc_method req) (params req)) fx) = (Fulfilled r, fx2)"
    and "r = Some [] \<or> r = None"
  shows "handleIncomingEvent this event fx = (Fulfilled (), fx2)
         \<and> sent (snd (handleIncomingEvent this event fx)) = sent fx2"
  using assms by (auto simp: handleIncomingEvent_def Let_def)

theorem empty_string_result_witness:
  "handleIncomingEvent
      (setStrategy (demo_backend (Fulfilled True)) ''ping''
         (CustomStrategy (\<lambda>remotePubkey ps fx. (Fulfilled (Some []), fx))))
      (demo_request ''7'' ''ping'' []) no_effects =
     (Fulfilled (),
      \<lparr>debug_log = [IncomingEvent ''7'' ''ping'' []], gate_calls = [], sign_calls = [], sent = []\<rparr>)"
  using empty_string_result_sends_nothing
    [of "setStrategy (demo_backend (Fulfilled True)) ''ping''
           (CustomStrategy (\<lambda>remotePubkey ps fx. (Fulfilled (Some []), fx)))"
        "demo_request ''7'' ''ping'' []"
        "\<lparr>req_id = ''7'', rpc_method = ''ping'', params = []\<rparr>"
        "CustomStrategy (\<lambda>remotePubkey ps fx. (Fulfilled (Some []), fx))"
        no_effects "Some []"
        "\<lparr>debug_log = [IncomingEvent ''7'' ''ping'' []], gate_calls = [], sign_calls = [], sent = []\<rparr>"]
  by (simp add: setStrategy_def set_handler_def demo_backend_def demo_request_def
      demo_parseEvent_def initial_handlers_def get_handler_def handle_def debug_def no_effects_def)

end
